theory Spec2Isabelle
  imports Complex_Main
begin

section \<open>Data model (types.ts)\<close>

text \<open>
  Strings are modelled as \<open>string\<close>, an optional member \<open>m?: T\<close> as \<open>T option\<close>
  (\<open>None\<close> is \<open>undefined\<close>). Record fields carry a short prefix where the source name
  would clash with a variable name.

  JavaScript numbers are IEEE-754 doubles; the model computes with real numbers, that is
  without rounding, overflow, infinities or \<open>NaN\<close>. The statements about the program
  below are chosen so that rounding does not affect them: they speak of which values flow
  where, of comparisons, of clamping, of non-strict order, and of sums of small integers and
  halves, which doubles represent exactly. What holds in exact arithmetic only is marked as
  such.
\<close>

text \<open>The constructor for \<open>'INT'\<close> carries a suffix: \<open>INT\<close> is notation of HOL.\<close>

datatype FieldType = INT_type | VARCHAR | TEXT | BOOLEAN | DATE | TIMESTAMP | DECIMAL | UUID

record Field =
  f_id :: string
  f_name :: string
  f_type :: FieldType
  isPrimaryKey :: bool
  isForeignKey :: bool
  isNullable :: bool
  f_description :: "string option"

record Table =
  t_id :: string
  t_name :: string
  t_x :: real
  t_y :: real
  t_fields :: "Field list"
  t_description :: "string option"
  t_imageUrl :: "string option"
  t_width :: "real option"
  t_isComplete :: "bool option"

text \<open>
  \<open>Cardinality\<close> is the union of the string literals \<open>'1:1' | '1:N' | 'N:M'\<close>. The values
  are plain strings at run time (the initial state of App.tsx carries \<open>'N:1'\<close>, an imported
  file carries whatever it holds), so the model keeps the string.
\<close>

type_synonym Cardinality = string

record Relationship =
  r_id :: string
  sourceTableId :: string
  sourceFieldId :: "string option"
  targetTableId :: string
  targetFieldId :: "string option"
  cardinality :: Cardinality
  label :: "string option"
  color :: "string option"

record Point =
  p_x :: real
  p_y :: real

record Size =
  width :: real
  height :: real

text \<open>\<open>Partial<Table>\<close>: every member of \<open>Table\<close>, each optional. A present member whose
  value is \<open>undefined\<close> (as in \<open>{ imageUrl: undefined }\<close>) is \<open>Some None\<close>.\<close>

record PartialTable =
  u_id :: "string option"
  u_name :: "string option"
  u_x :: "real option"
  u_y :: "real option"
  u_fields :: "Field list option"
  u_description :: "string option option"
  u_imageUrl :: "string option option"
  u_width :: "real option option"
  u_isComplete :: "bool option option"

definition no_updates :: PartialTable where
  "no_updates = \<lparr> u_id = None, u_name = None, u_x = None, u_y = None, u_fields = None,
     u_description = None, u_imageUrl = None, u_width = None, u_isComplete = None \<rparr>"

text \<open>The object spread \<open>{ ...t, ...updates }\<close>.\<close>

definition spread :: "Table \<Rightarrow> PartialTable \<Rightarrow> Table" where
  "spread t u =
     \<lparr> t_id = (case u_id u of Some v \<Rightarrow> v | None \<Rightarrow> t_id t),
       t_name = (case u_name u of Some v \<Rightarrow> v | None \<Rightarrow> t_name t),
       t_x = (case u_x u of Some v \<Rightarrow> v | None \<Rightarrow> t_x t),
       t_y = (case u_y u of Some v \<Rightarrow> v | None \<Rightarrow> t_y t),
       t_fields = (case u_fields u of Some v \<Rightarrow> v | None \<Rightarrow> t_fields t),
       t_description = (case u_description u of Some v \<Rightarrow> v | None \<Rightarrow> t_description t),
       t_imageUrl = (case u_imageUrl u of Some v \<Rightarrow> v | None \<Rightarrow> t_imageUrl t),
       t_width = (case u_width u of Some v \<Rightarrow> v | None \<Rightarrow> t_width t),
       t_isComplete = (case u_isComplete u of Some v \<Rightarrow> v | None \<Rightarrow> t_isComplete t) \<rparr>"

text \<open>JavaScript truthiness of an optional string: \<open>undefined\<close> and \<open>''\<close> are falsy.\<close>

fun truthy :: "string option \<Rightarrow> bool" where
  "truthy None = False"
| "truthy (Some s) = (s \<noteq> [])"

text \<open>\<open>c || '#3b82f6'\<close>: blue when no colour is set.\<close>

fun effectiveColor :: "string option \<Rightarrow> string" where
  "effectiveColor None = ''#3b82f6''"
| "effectiveColor (Some c) = (if c \<noteq> [] then c else ''#3b82f6'')"

section \<open>Canvas.tsx: state and handlers\<close>


definition CONNECTION_COLORS :: "string list" where
  "CONNECTION_COLORS =
     [''#ef4444'', ''#f97316'', ''#f59e0b'', ''#84cc16'', ''#10b981'', ''#06b6d4'',
      ''#3b82f6'', ''#8b5cf6'', ''#d946ef'', ''#f43f5e'', ''#6366f1'', ''#14b8a6'']"

record ConnectionState =
  cs_tableId :: string
  cs_fieldId :: "string option"

record ContextMenuState =
  cm_x :: real
  cm_y :: real
  cm_color :: string
  cm_tableId :: "string option"
  cm_fieldId :: "string option"
  cm_relationshipId :: "string option"

text \<open>The props of \<open>Canvas\<close> that the handlers read or set through the lifted setters,
  together with the component's own \<open>useState\<close> cells.\<close>

record Canvas =
  tables :: "Table list"
  relationships :: "Relationship list"
  selectedTableId :: "string option"
  zoom :: real
  offset :: Point
  isDraggingCanvas :: bool
  dragStart :: Point
  draggingTableId :: "string option"
  connectionStart :: "ConnectionState option"
  highlightedColor :: "string option"
  contextMenu :: "ContextMenuState option"
  mousePos :: Point

text \<open>\<open>handleWheel\<close>: the updater passed to \<open>setZoom\<close>, for a wheel event with the given
  \<open>deltaY\<close>.\<close>

definition zoomSensitivity :: real where
  "zoomSensitivity = 0.001"

definition wheelZoom :: "real \<Rightarrow> real \<Rightarrow> real" where
  "wheelZoom deltaY z = (let delta = - deltaY * zoomSensitivity in min (max 0.2 (z + delta)) 3)"

definition handleWheel :: "real \<Rightarrow> Canvas \<Rightarrow> Canvas" where
  "handleWheel deltaY st = st\<lparr> zoom := wheelZoom deltaY (zoom st) \<rparr>"

text \<open>A finite sequence of wheel events, oldest first.\<close>

fun wheelEvents :: "real list \<Rightarrow> Canvas \<Rightarrow> Canvas" where
  "wheelEvents [] st = st"
| "wheelEvents (d # ds) st = wheelEvents ds (handleWheel d st)"

definition handleMouseUp :: "Canvas \<Rightarrow> Canvas" where
  "handleMouseUp st = st\<lparr> isDraggingCanvas := False, draggingTableId := None \<rparr>"

definition handleTableMouseDown :: "string \<Rightarrow> Canvas \<Rightarrow> Canvas" where
  "handleTableMouseDown tableId st =
     (let st1 = (if contextMenu st \<noteq> None then st\<lparr> contextMenu := None \<rparr> else st)
      in if connectionStart st1 \<noteq> None then st1
         else st1\<lparr> selectedTableId := Some tableId, draggingTableId := Some tableId \<rparr>)"

definition handleTableUpdate :: "string \<Rightarrow> PartialTable \<Rightarrow> Canvas \<Rightarrow> Canvas" where
  "handleTableUpdate ident updates st =
     st\<lparr> tables := map (\<lambda>t. if t_id t = ident then spread t updates else t) (tables st) \<rparr>"

definition handleTableDelete :: "string \<Rightarrow> Canvas \<Rightarrow> Canvas" where
  "handleTableDelete ident st =
     st\<lparr> tables := filter (\<lambda>t. t_id t \<noteq> ident) (tables st),
         relationships :=
           filter (\<lambda>r. sourceTableId r \<noteq> ident \<and> targetTableId r \<noteq> ident) (relationships st) \<rparr>"

definition handleDisconnectField :: "string \<Rightarrow> string \<Rightarrow> Canvas \<Rightarrow> Canvas" where
  "handleDisconnectField tableId fieldId st =
     st\<lparr> relationships :=
           filter (\<lambda>r. \<not> ((sourceTableId r = tableId \<and> sourceFieldId r = Some fieldId) \<or>
                           (targetTableId r = tableId \<and> targetFieldId r = Some fieldId)))
                  (relationships st) \<rparr>"

definition handleRelationshipDelete :: "string \<Rightarrow> Canvas \<Rightarrow> Canvas" where
  "handleRelationshipDelete ident st =
     st\<lparr> relationships := filter (\<lambda>r. r_id r \<noteq> ident) (relationships st) \<rparr>"

definition handleColorChange :: "string \<Rightarrow> Canvas \<Rightarrow> Canvas" where
  "handleColorChange newColor st =
     (case contextMenu st of
        None \<Rightarrow> st
      | Some cm \<Rightarrow>
          if truthy (cm_relationshipId cm) then
            st\<lparr> relationships :=
                   map (\<lambda>r. if Some (r_id r) = cm_relationshipId cm
                             then r\<lparr> color := Some newColor \<rparr> else r) (relationships st),
                 contextMenu := None,
                 highlightedColor :=
                   (if highlightedColor st = Some (cm_color cm) then Some newColor
                    else highlightedColor st) \<rparr>
          else st)"


text \<open>\<open>handleMouseDown\<close>: \<open>inMenu\<close> is \<open>e.target.closest('.context-menu')\<close> being found,
  \<open>button\<close>, \<open>clientX\<close>, \<open>clientY\<close> are the members of the event.\<close>

definition handleMouseDown :: "bool \<Rightarrow> int \<Rightarrow> real \<Rightarrow> real \<Rightarrow> Canvas \<Rightarrow> Canvas" where
  "handleMouseDown inMenu button clientX clientY st =
     (if inMenu then st
      else let st1 = (if contextMenu st \<noteq> None then st\<lparr> contextMenu := None \<rparr> else st)
           in if button = 0
              then st1\<lparr> isDraggingCanvas := True,
                        dragStart := \<lparr> p_x = clientX - p_x (offset st), p_y = clientY - p_y (offset st) \<rparr>,
                        selectedTableId := None,
                        connectionStart := None \<rparr>
              else st1)"

text \<open>\<open>handleMouseMove\<close>: \<open>rect\<close> is the bounding rectangle's \<open>(left, top)\<close> when
  \<open>canvasRef.current\<close> is set. The three blocks all read the props of the current render.\<close>

definition handleMouseMove ::
    "real \<Rightarrow> real \<Rightarrow> real \<Rightarrow> real \<Rightarrow> Point option \<Rightarrow> Canvas \<Rightarrow> Canvas" where
  "handleMouseMove clientX clientY movementX movementY rect st =
     (let st1 = (if isDraggingCanvas st
                 then st\<lparr> offset := \<lparr> p_x = clientX - p_x (dragStart st),
                                       p_y = clientY - p_y (dragStart st) \<rparr> \<rparr>
                 else st);
          st2 = (if truthy (draggingTableId st)
                 then st1\<lparr> tables :=
                        map (\<lambda>t. if Some (t_id t) = draggingTableId st
                                  then t\<lparr> t_x := t_x t + movementX / zoom st,
                                          t_y := t_y t + movementY / zoom st \<rparr>
                                  else t) (tables st) \<rparr>
                 else st1)
      in case (connectionStart st, rect) of
           (Some cs, Some rc) \<Rightarrow>
             st2\<lparr> mousePos := \<lparr> p_x = (clientX - p_x rc - p_x (offset st)) / zoom st,
                                 p_y = (clientY - p_y rc - p_y (offset st)) / zoom st \<rparr> \<rparr>
         | _ \<Rightarrow> st2)"

subsection \<open>handleConnect\<close>

text \<open>The duplicate test: \<open>relationships.some(...)\<close> over the ordered and the mirrored
  endpoints.\<close>

definition connectionExists ::
    "ConnectionState \<Rightarrow> string \<Rightarrow> string option \<Rightarrow> Relationship list \<Rightarrow> bool" where
  "connectionExists cs tableId fieldId rels =
     list_ex (\<lambda>r.
        (sourceTableId r = cs_tableId cs \<and> targetTableId r = tableId \<and>
         sourceFieldId r = cs_fieldId cs \<and> targetFieldId r = fieldId) \<or>
        (sourceTableId r = tableId \<and> targetTableId r = cs_tableId cs \<and>
         sourceFieldId r = fieldId \<and> targetFieldId r = cs_fieldId cs)) rels"

text \<open>The statement \<open>if (r?.color) color = r.color;\<close> for the result \<open>r\<close> of a
  \<open>relationships.find\<close> and the current value of the variable \<open>color\<close>.\<close>

definition inheritColor :: "Relationship option \<Rightarrow> string option \<Rightarrow> string option" where
  "inheritColor r cur =
     (case r of
        None \<Rightarrow> cur
      | Some rel \<Rightarrow> if truthy (color rel) then color rel else cur)"

text \<open>\<open>CONNECTION_COLORS[Math.floor(Math.random() * CONNECTION_COLORS.length)]\<close>, with the
  value \<open>rnd\<close> of \<open>Math.random()\<close> as a parameter; an index outside the array reads
  \<open>undefined\<close>.\<close>

definition randomColor :: "real \<Rightarrow> string option" where
  "randomColor rnd =
     (let i = \<lfloor>rnd * real (length CONNECTION_COLORS)\<rfloor>
      in if 0 \<le> i \<and> i < int (length CONNECTION_COLORS)
         then Some (CONNECTION_COLORS ! nat i) else None)"

text \<open>The colour logic of \<open>handleConnect\<close>, one \<open>let\<close> per numbered block of the source;
  \<open>c0\<close> ... \<open>c5\<close> are the successive values of the variable \<open>color\<close>.\<close>

definition connectionColor ::
    "ConnectionState \<Rightarrow> string \<Rightarrow> string option \<Rightarrow> Relationship list \<Rightarrow> real \<Rightarrow> string option" where
  "connectionColor cs tableId fieldId rels rnd =
     (let c0 = None;
          c1 = (if truthy (cs_fieldId cs)
                then inheritColor
                       (find (\<lambda>rel.
                          (sourceTableId rel = cs_tableId cs \<and> sourceFieldId rel = cs_fieldId cs) \<or>
                          (targetTableId rel = cs_tableId cs \<and> targetFieldId rel = cs_fieldId cs))
                          rels) c0
                else c0);
          c2 = (if \<not> truthy c1 \<and> truthy fieldId
                then inheritColor
                       (find (\<lambda>rel.
                          (sourceTableId rel = tableId \<and> sourceFieldId rel = fieldId) \<or>
                          (targetTableId rel = tableId \<and> targetFieldId rel = fieldId))
                          rels) c1
                else c1);
          c3 = (if \<not> truthy c2
                then inheritColor
                       (find (\<lambda>rel.
                          sourceTableId rel = cs_tableId cs \<or> targetTableId rel = cs_tableId cs)
                          rels) c2
                else c2);
          c4 = (if \<not> truthy c3
                then inheritColor
                       (find (\<lambda>rel. sourceTableId rel = tableId \<or> targetTableId rel = tableId)
                          rels) c3
                else c3);
          c5 = (if \<not> truthy c4 then randomColor rnd else c4)
      in c5)"

text \<open>\<open>handleConnect(tableId, fieldId)\<close>; \<open>newId\<close> is the value of
  \<open>crypto.randomUUID()\<close> and \<open>rnd\<close> the value of \<open>Math.random()\<close>.\<close>

definition handleConnect ::
    "string \<Rightarrow> string option \<Rightarrow> string \<Rightarrow> real \<Rightarrow> Canvas \<Rightarrow> Canvas" where
  "handleConnect tableId fieldId newId rnd st =
     (let st1 = (if contextMenu st \<noteq> None then st\<lparr> contextMenu := None \<rparr> else st)
      in case connectionStart st of
           None \<Rightarrow> st1\<lparr> connectionStart := Some \<lparr> cs_tableId = tableId, cs_fieldId = fieldId \<rparr> \<rparr>
         | Some cs \<Rightarrow>
             if cs_tableId cs = tableId \<and> cs_fieldId cs = fieldId
             then st1\<lparr> connectionStart := None \<rparr>
             else if \<not> connectionExists cs tableId fieldId (relationships st)
             then st1\<lparr> relationships :=
                        relationships st @
                          [\<lparr> r_id = newId,
                             sourceTableId = cs_tableId cs,
                             sourceFieldId = cs_fieldId cs,
                             targetTableId = tableId,
                             targetFieldId = fieldId,
                             cardinality = ''1:N'',
                             label = None,
                             color = connectionColor cs tableId fieldId (relationships st) rnd \<rparr>],
                      connectionStart := None \<rparr>
             else st1\<lparr> connectionStart := None \<rparr>)"

subsection \<open>Context menu, focus and the inline buttons\<close>

definition handleRelationshipContextMenu ::
    "real \<Rightarrow> real \<Rightarrow> Point option \<Rightarrow> Relationship \<Rightarrow> Canvas \<Rightarrow> Canvas" where
  "handleRelationshipContextMenu clientX clientY rect r st =
     (case rect of
        None \<Rightarrow> st
      | Some rc \<Rightarrow>
          st\<lparr> contextMenu :=
                Some \<lparr> cm_x = clientX - p_x rc, cm_y = clientY - p_y rc,
                       cm_color = effectiveColor (color r),
                       cm_tableId = None, cm_fieldId = None,
                       cm_relationshipId = Some (r_id r) \<rparr> \<rparr>)"

definition handleFieldContextMenu ::
    "real \<Rightarrow> real \<Rightarrow> Point option \<Rightarrow> string \<Rightarrow> string \<Rightarrow> string \<Rightarrow> Canvas \<Rightarrow> Canvas" where
  "handleFieldContextMenu clientX clientY rect tableId fieldId col st =
     (let rel = find (\<lambda>r. (sourceTableId r = tableId \<and> sourceFieldId r = Some fieldId) \<or>
                           (targetTableId r = tableId \<and> targetFieldId r = Some fieldId))
                     (relationships st)
      in case rect of
           None \<Rightarrow> st
         | Some rc \<Rightarrow>
             st\<lparr> contextMenu :=
                   Some \<lparr> cm_x = clientX - p_x rc, cm_y = clientY - p_y rc,
                          cm_color = col,
                          cm_tableId = Some tableId, cm_fieldId = Some fieldId,
                          cm_relationshipId = map_option r_id rel \<rparr> \<rparr>)"

text \<open>The two zoom buttons, the close button of the focus indicator, the focus entry and the
  delete entry of the context menu, and the close button of the connection indicator.\<close>

definition zoomOutButton :: "Canvas \<Rightarrow> Canvas" where
  "zoomOutButton st = st\<lparr> zoom := max 0.2 (zoom st - 0.1) \<rparr>"

definition zoomInButton :: "Canvas \<Rightarrow> Canvas" where
  "zoomInButton st = st\<lparr> zoom := min 2 (zoom st + 0.1) \<rparr>"

definition exitFocusButton :: "Canvas \<Rightarrow> Canvas" where
  "exitFocusButton st = st\<lparr> highlightedColor := None \<rparr>"

definition menuFocusEntry :: "Canvas \<Rightarrow> Canvas" where
  "menuFocusEntry st =
     (case contextMenu st of
        None \<Rightarrow> st
      | Some cm \<Rightarrow>
          if highlightedColor st = Some (cm_color cm)
          then st\<lparr> highlightedColor := None, contextMenu := None \<rparr>
          else st\<lparr> highlightedColor := Some (cm_color cm), contextMenu := None \<rparr>)"

definition menuDeleteEntry :: "Canvas \<Rightarrow> Canvas" where
  "menuDeleteEntry st =
     (case contextMenu st of
        None \<Rightarrow> st
      | Some cm \<Rightarrow>
          (case cm_relationshipId cm of
             None \<Rightarrow> st
           | Some rid \<Rightarrow>
               if rid \<noteq> [] then (handleRelationshipDelete rid st)\<lparr> contextMenu := None \<rparr>
               else st))"

definition cancelConnectionButton :: "Canvas \<Rightarrow> Canvas" where
  "cancelConnectionButton st = st\<lparr> connectionStart := None \<rparr>"

section \<open>utils/geometry.ts\<close>

definition getIntersection :: "Point \<Rightarrow> Size \<Rightarrow> Point \<Rightarrow> Point" where
  "getIntersection center1 size1 center2 =
     (let dx = p_x center2 - p_x center1;
          dy = p_y center2 - p_y center1
      in if dx = 0 \<and> dy = 0 then center1
         else let aspect = width size1 / height size1;
                  absDx = \<bar>dx\<bar>;
                  absDy = \<bar>dy\<bar>;
                  scale = (if absDx > aspect * absDy
                           then (width size1 / 2) / absDx
                           else (height size1 / 2) / absDy)
              in \<lparr> p_x = p_x center1 + dx * scale, p_y = p_y center1 + dy * scale \<rparr>)"


section \<open>Canvas.tsx: geometry helpers and routing\<close>









section \<open>TableNode.tsx\<close>

text \<open>\<open>handleRemoveField\<close> of the node that shows \<open>table\<close>: its only effect is the call
  \<open>onUpdate(table.id, { fields: ... })\<close>, and \<open>Canvas\<close> passes \<open>handleTableUpdate\<close> as
  \<open>onUpdate\<close>.\<close>

definition handleRemoveField :: "Table \<Rightarrow> string \<Rightarrow> Canvas \<Rightarrow> Canvas" where
  "handleRemoveField table fieldId st =
     handleTableUpdate (t_id table)
       (no_updates\<lparr> u_fields := Some (filter (\<lambda>f. f_id f \<noteq> fieldId) (t_fields table)) \<rparr>) st"


section \<open>The interactive operations of the canvas\<close>

text \<open>One constructor per interaction the canvas and its table nodes offer. Every edit made
  inside a table node (adding, changing or removing a field, renaming, the description, the
  image) reaches the canvas as one \<open>onUpdate\<close> call, that is as \<open>TableUpdate\<close>;
  \<open>RemoveField\<close> is listed on its own.\<close>

datatype CanvasEvent =
    MouseDown bool int real real
  | MouseMove real real real real "Point option"
  | MouseUp
  | Wheel real
  | TableMouseDown string
  | TableUpdate string PartialTable
  | RemoveField Table string
  | TableDelete string
  | Connect string "string option" string real
  | DisconnectField string string
  | RelationshipDelete string
  | RelationshipContextMenu real real "Point option" Relationship
  | FieldContextMenu real real "Point option" string string string
  | ColorChange string
  | ZoomOutButton
  | ZoomInButton
  | ExitFocusButton
  | MenuFocusEntry
  | MenuDeleteEntry
  | CancelConnectionButton

fun canvasStep :: "CanvasEvent \<Rightarrow> Canvas \<Rightarrow> Canvas" where
  "canvasStep (MouseDown inMenu button cx cy) st = handleMouseDown inMenu button cx cy st"
| "canvasStep (MouseMove cx cy mx my rect) st = handleMouseMove cx cy mx my rect st"
| "canvasStep MouseUp st = handleMouseUp st"
| "canvasStep (Wheel deltaY) st = handleWheel deltaY st"
| "canvasStep (TableMouseDown tableId) st = handleTableMouseDown tableId st"
| "canvasStep (TableUpdate ident updates) st = handleTableUpdate ident updates st"
| "canvasStep (RemoveField table fieldId) st = handleRemoveField table fieldId st"
| "canvasStep (TableDelete ident) st = handleTableDelete ident st"
| "canvasStep (Connect tableId fieldId newId rnd) st = handleConnect tableId fieldId newId rnd st"
| "canvasStep (DisconnectField tableId fieldId) st = handleDisconnectField tableId fieldId st"
| "canvasStep (RelationshipDelete ident) st = handleRelationshipDelete ident st"
| "canvasStep (RelationshipContextMenu cx cy rect r) st =
     handleRelationshipContextMenu cx cy rect r st"
| "canvasStep (FieldContextMenu cx cy rect tableId fieldId col) st =
     handleFieldContextMenu cx cy rect tableId fieldId col st"
| "canvasStep (ColorChange newColor) st = handleColorChange newColor st"
| "canvasStep ZoomOutButton st = zoomOutButton st"
| "canvasStep ZoomInButton st = zoomInButton st"
| "canvasStep ExitFocusButton st = exitFocusButton st"
| "canvasStep MenuFocusEntry st = menuFocusEntry st"
| "canvasStep MenuDeleteEntry st = menuDeleteEntry st"
| "canvasStep CancelConnectionButton st = cancelConnectionButton st"

fun canvasRun :: "CanvasEvent list \<Rightarrow> Canvas \<Rightarrow> Canvas" where
  "canvasRun [] st = st"
| "canvasRun (e # es) st = canvasRun es (canvasStep e st)"

text \<open>An endpoint of a connection: a table id and, optionally, a field id. The connect
  gesture from endpoint \<open>a\<close> to endpoint \<open>b\<close> is a click on the handle of \<open>a\<close> followed
  by a click on the handle of \<open>b\<close>.\<close>

type_synonym Endpoint = "string \<times> string option"

definition connectGesture :: "Endpoint \<Rightarrow> Endpoint \<Rightarrow> string \<Rightarrow> real \<Rightarrow> Canvas \<Rightarrow> Canvas" where
  "connectGesture a b newId rnd st =
     handleConnect (fst b) (snd b) newId rnd (handleConnect (fst a) (snd a) newId rnd st)"

text \<open>A relationship joins two endpoints when it runs from one to the other, in either
  direction.\<close>

definition joins :: "Endpoint \<Rightarrow> Endpoint \<Rightarrow> Relationship \<Rightarrow> bool" where
  "joins a b r \<longleftrightarrow>
     (sourceTableId r = fst a \<and> sourceFieldId r = snd a \<and>
      targetTableId r = fst b \<and> targetFieldId r = snd b) \<or>
     (sourceTableId r = fst b \<and> sourceFieldId r = snd b \<and>
      targetTableId r = fst a \<and> targetFieldId r = snd a)"

section \<open>App.tsx: the initial graph\<close>

definition initialTables :: "Table list" where
  "initialTables =
     [\<lparr> t_id = ''1'', t_name = ''Users'', t_x = 100, t_y = 100,
        t_fields =
          [\<lparr> f_id = ''f1'', f_name = ''id'', f_type = UUID, isPrimaryKey = True,
              isForeignKey = False, isNullable = False, f_description = None \<rparr>,
           \<lparr> f_id = ''f2'', f_name = ''username'', f_type = VARCHAR, isPrimaryKey = False,
              isForeignKey = False, isNullable = False, f_description = None \<rparr>,
           \<lparr> f_id = ''f3'', f_name = ''email'', f_type = VARCHAR, isPrimaryKey = False,
              isForeignKey = False, isNullable = False, f_description = None \<rparr>],
        t_description = Some ''System users'', t_imageUrl = None, t_width = None,
        t_isComplete = None \<rparr>,
      \<lparr> t_id = ''2'', t_name = ''Logs'', t_x = 500, t_y = 100,
        t_fields =
          [\<lparr> f_id = ''p1'', f_name = ''id'', f_type = UUID, isPrimaryKey = True,
              isForeignKey = False, isNullable = False, f_description = None \<rparr>,
           \<lparr> f_id = ''p2'', f_name = ''user_id'', f_type = UUID, isPrimaryKey = False,
              isForeignKey = True, isNullable = True, f_description = None \<rparr>,
           \<lparr> f_id = ''p3'', f_name = ''action'', f_type = VARCHAR, isPrimaryKey = False,
              isForeignKey = False, isNullable = True, f_description = None \<rparr>,
           \<lparr> f_id = ''p4'', f_name = ''timestamp'', f_type = TIMESTAMP, isPrimaryKey = False,
              isForeignKey = False, isNullable = False, f_description = None \<rparr>],
        t_description = Some ''Activity logs'', t_imageUrl = None, t_width = None,
        t_isComplete = None \<rparr>]"

definition initialRelationships :: "Relationship list" where
  "initialRelationships =
     [\<lparr> r_id = ''r1'', sourceTableId = ''2'', sourceFieldId = Some ''p2'',
        targetTableId = ''1'', targetFieldId = Some ''f1'', cardinality = ''N:1'',
        label = Some ''logs'', color = Some ''#3b82f6'' \<rparr>]"

text \<open>The state of \<open>Canvas\<close> on the first render: the props from \<open>App\<close>'s initial state and
  the initial values of the component's own cells.\<close>

definition initialCanvas :: Canvas where
  "initialCanvas =
     \<lparr> tables = initialTables, relationships = initialRelationships,
       selectedTableId = None, zoom = 1, offset = \<lparr> p_x = 0, p_y = 0 \<rparr>,
       isDraggingCanvas = False, dragStart = \<lparr> p_x = 0, p_y = 0 \<rparr>,
       draggingTableId = None, connectionStart = None, highlightedColor = None,
       contextMenu = None, mousePos = \<lparr> p_x = 0, p_y = 0 \<rparr> \<rparr>"


section \<open>App.tsx: importing a file\<close>

text \<open>The values \<open>JSON.parse\<close> returns.\<close>

datatype json =
    JNull
  | JBool bool
  | JNumber real
  | JString string
  | JArray "json list"
  | JObject "(string \<times> json) list"

datatype js_error = SyntaxError | TypeError

text \<open>Reading a member \<open>data.k\<close> for a key \<open>k\<close> that no prototype defines (such as
  \<open>tables\<close> and \<open>relationships\<close>): a \<open>TypeError\<close> on \<open>null\<close>, the member's value on
  an object that has it, \<open>undefined\<close> otherwise.\<close>

fun getMember :: "json \<Rightarrow> string \<Rightarrow> js_error + json option" where
  "getMember JNull k = Inl TypeError"
| "getMember (JObject kvs) k = Inr (map_of kvs k)"
| "getMember v k = Inr None"

text \<open>Truthiness of a value that may be \<open>undefined\<close>, and \<open>Array.isArray\<close>.\<close>

fun jsTruthy :: "json option \<Rightarrow> bool" where
  "jsTruthy None = False"
| "jsTruthy (Some JNull) = False"
| "jsTruthy (Some (JBool b)) = b"
| "jsTruthy (Some (JNumber n)) = (n \<noteq> 0)"
| "jsTruthy (Some (JString s)) = (s \<noteq> [])"
| "jsTruthy (Some (JArray xs)) = True"
| "jsTruthy (Some (JObject kvs)) = True"

fun isArray :: "json option \<Rightarrow> bool" where
  "isArray (Some (JArray xs)) = True"
| "isArray v = False"

text \<open>The part of \<open>App\<close>'s state that an import replaces. After \<open>setTables(data.tables)\<close> the
  state cell holds the value of \<open>data.tables\<close> as it is (no element is checked), so the
  model keeps the two cells as JavaScript values.\<close>

record Graph =
  g_tables :: "json option"
  g_relationships :: "json option"

text \<open>What the \<open>onload\<close> callback does with the text of the file: the new graph and the
  messages passed to \<open>alert\<close>. \<open>parse\<close> stands for \<open>JSON.parse\<close>; every exception raised
  inside the \<open>try\<close> block ends in the \<open>catch\<close> branch.\<close>

definition onload :: "(string \<Rightarrow> js_error + json) \<Rightarrow> string \<Rightarrow> Graph \<Rightarrow> Graph \<times> string list" where
  "onload parse content g =
     (case parse content of
        Inl e \<Rightarrow> (g, [''Failed to parse the file.''])
      | Inr data \<Rightarrow>
          (case getMember data ''tables'' of
             Inl e \<Rightarrow> (g, [''Failed to parse the file.''])
           | Inr tablesV \<Rightarrow>
               if jsTruthy tablesV \<and> isArray tablesV
               then
                 (case getMember data ''relationships'' of
                    Inl e \<Rightarrow> (g, [''Failed to parse the file.''])
                  | Inr relsV \<Rightarrow>
                      if jsTruthy relsV \<and> isArray relsV
                      then (\<lparr> g_tables = tablesV, g_relationships = relsV \<rparr>, [])
                      else (g, [''Invalid file format. Please upload a valid JSON file.'']))
               else (g, [''Invalid file format. Please upload a valid JSON file.''])))"

text \<open>\<open>handleFileChange\<close>: nothing happens when no file was chosen; otherwise the file is
  read as text and \<open>onload\<close> runs on it.\<close>

definition handleFileChange ::
    "(string \<Rightarrow> js_error + json) \<Rightarrow> string option \<Rightarrow> Graph \<Rightarrow> Graph \<times> string list" where
  "handleFileChange parse file g =
     (case file of
        None \<Rightarrow> (g, [])
      | Some content \<Rightarrow> onload parse content g)"

text \<open>A member \<open>k\<close> is present as an array: the parsed value is an object whose member
  \<open>k\<close> is an array.\<close>

fun arrayMember :: "json \<Rightarrow> string \<Rightarrow> json list option" where
  "arrayMember (JObject kvs) k = (case map_of kvs k of Some (JArray xs) \<Rightarrow> Some xs | _ \<Rightarrow> None)"
| "arrayMember v k = None"

text \<open>A stand-in for \<open>JSON.parse\<close> on four texts; any other text counts as unparsable.\<close>

definition sampleParse :: "string \<Rightarrow> js_error + json" where
  \<open>sampleParse s =
     (if s = ''{"tables":[{"id":"t"}],"relationships":[]}''
      then Inr (JObject [(''tables'', JArray [JObject [(''id'', JString ''t'')]]),
                         (''relationships'', JArray [])])
      else if s = ''{"tables":[]}'' then Inr (JObject [(''tables'', JArray [])])
      else if s = ''{"tables":[],"relationships":7}''
      then Inr (JObject [(''tables'', JArray []), (''relationships'', JNumber 7)])
      else if s = ''null'' then Inr JNull
      else Inl SyntaxError)\<close>

definition currentGraph :: Graph where
  "currentGraph =
     \<lparr> g_tables = Some (JArray [JObject [(''id'', JString ''1'')]]),
       g_relationships = Some (JArray []) \<rparr>"

section \<open>Notions used in the statements\<close>



text \<open>A relationship touches a field when that (table, field) pair is its source or its
  target, and touches a table when the table is its source or its target table.\<close>

definition touchesField :: "string \<Rightarrow> string option \<Rightarrow> Relationship \<Rightarrow> bool" where
  "touchesField tableId fieldId r \<longleftrightarrow>
     (sourceTableId r = tableId \<and> sourceFieldId r = fieldId) \<or>
     (targetTableId r = tableId \<and> targetFieldId r = fieldId)"

definition touchesTable :: "string \<Rightarrow> Relationship \<Rightarrow> bool" where
  "touchesTable tableId r \<longleftrightarrow> sourceTableId r = tableId \<or> targetTableId r = tableId"





section \<open>Sample graphs\<close>



text \<open>The initial canvas after the field \<open>f1\<close> of \<open>Users\<close> has been removed, and the
  initial canvas without the table \<open>Users\<close> (as an imported file may have it).\<close>

definition afterFieldRemoval :: Canvas where
  "afterFieldRemoval = handleRemoveField (hd initialTables) ''f1'' initialCanvas"


text \<open>A graph as the schema generator returns it (its response schema has no field ids and
  no colour for a relationship), and the same graph after one connect gesture.\<close>

definition generatedCanvas :: Canvas where
  "generatedCanvas =
     initialCanvas\<lparr> relationships :=
       [\<lparr> r_id = ''g1'', sourceTableId = ''1'', sourceFieldId = None,
          targetTableId = ''2'', targetFieldId = None, cardinality = ''1:N'',
          label = Some ''writes'', color = None \<rparr>] \<rparr>"

definition generatedThenConnected :: Canvas where
  "generatedThenConnected =
     connectGesture (''1'', Some ''f1'') (''2'', Some ''p2'') ''n1'' (1 / 2) generatedCanvas"

text \<open>The initial canvas with a second relationship between the fields \<open>2.p2\<close> and
  \<open>1.f1\<close>, in the mirrored direction (as an imported file may have it).\<close>

definition doubledCanvas :: Canvas where
  "doubledCanvas =
     initialCanvas\<lparr> relationships :=
       initialRelationships @
         [\<lparr> r_id = ''r2'', sourceTableId = ''1'', sourceFieldId = Some ''f1'',
            targetTableId = ''2'', targetFieldId = Some ''p2'', cardinality = ''1:N'',
            label = None, color = Some ''#3b82f6'' \<rparr>] \<rparr>"


text \<open>A sample session on the initial canvas.\<close>

definition sampleEvents :: "CanvasEvent list" where
  "sampleEvents =
     [Connect ''1'' (Some ''f2'') ''n0'' 0,
      Connect ''2'' (Some ''p3'') ''n1'' (1 / 2),
      RelationshipContextMenu 10 10 (Some \<lparr> p_x = 0, p_y = 0 \<rparr>)
        \<lparr> r_id = ''n1'', sourceTableId = ''1'', sourceFieldId = Some ''f2'',
          targetTableId = ''2'', targetFieldId = Some ''p3'', cardinality = ''1:N'',
          label = None, color = Some ''#3b82f6'' \<rparr>,
      ColorChange ''#ef4444'',
      TableDelete ''9'']"

section \<open>Properties\<close>

subsection \<open>View transform: zoom by wheel\<close>

lemma wheelZoom_bounds: "0.2 \<le> wheelZoom d z \<and> wheelZoom d z \<le> 3"
  by (simp add: wheelZoom_def Let_def)

text \<open>
  Claim C7. Starting from any zoom value in \<open>[0.2, 3.0]\<close>, after any finite sequence of
  wheel events (each adding \<open>- deltaY * 0.001\<close> to the zoom before clamping) the zoom value
  is still in \<open>[0.2, 3.0]\<close>.
\<close>

theorem zoom_stays_in_bounds:
  "0.2 \<le> zoom st \<Longrightarrow> zoom st \<le> 3 \<Longrightarrow>
     0.2 \<le> zoom (wheelEvents ds st) \<and> zoom (wheelEvents ds st) \<le> 3"
proof (induction ds arbitrary: st)
  case Nil
  then show ?case by simp
next
  case (Cons d ds)
  have "0.2 \<le> zoom (handleWheel d st)" "zoom (handleWheel d st) \<le> 3"
    using wheelZoom_bounds [of d "zoom st"] by (simp_all add: handleWheel_def)
  then show ?case using Cons.IH [of "handleWheel d st"] by simp
qed

theorem zoom_stays_in_bounds_witness:
  "0.2 \<le> zoom initialCanvas \<and> zoom initialCanvas \<le> 3 \<and>
   0.2 \<le> zoom (wheelEvents [- 5000, 120, 100000] initialCanvas) \<and>
   zoom (wheelEvents [- 5000, 120, 100000] initialCanvas) \<le> 3"
  using zoom_stays_in_bounds [of initialCanvas "[- 5000, 120, 100000]"]
  by (simp add: initialCanvas_def)


subsection \<open>Geometry: the intersection formula in exact arithmetic\<close>

lemma point_neq: "(ca::Point) \<noteq> cb \<Longrightarrow> p_x cb - p_x ca \<noteq> 0 \<or> p_y cb - p_y ca \<noteq> 0"
  by (cases ca; cases cb) auto

lemma exit_vertical_edge:
  fixes dx dy w h :: real
  assumes "0 < w" "0 < h" "\<bar>dx\<bar> > w / h * \<bar>dy\<bar>"
  shows "\<bar>dx * (w / 2 / \<bar>dx\<bar>)\<bar> = w / 2" and "\<bar>dy * (w / 2 / \<bar>dx\<bar>)\<bar> \<le> h / 2"
    and "0 < w / 2 / \<bar>dx\<bar>"
proof -
  have "0 \<le> w / h * \<bar>dy\<bar>" using assms by simp
  then have dx: "0 < \<bar>dx\<bar>" using assms(3) by linarith
  show "0 < w / 2 / \<bar>dx\<bar>" using dx assms(1) by simp
  show "\<bar>dx * (w / 2 / \<bar>dx\<bar>)\<bar> = w / 2"
    using dx assms(1) by (simp add: abs_mult)
  have "w * \<bar>dy\<bar> < h * \<bar>dx\<bar>"
    using assms by (simp add: field_simps)
  then have "\<bar>dy\<bar> * (w / 2) \<le> h / 2 * \<bar>dx\<bar>" by (simp add: field_simps)
  then have "\<bar>dy\<bar> * (w / 2) / \<bar>dx\<bar> \<le> h / 2"
    using dx by (simp add: pos_divide_le_eq)
  then show "\<bar>dy * (w / 2 / \<bar>dx\<bar>)\<bar> \<le> h / 2"
    using assms(1) by (simp add: abs_mult)
qed

lemma exit_horizontal_edge:
  fixes dx dy w h :: real
  assumes "0 < w" "0 < h" "\<not> \<bar>dx\<bar> > w / h * \<bar>dy\<bar>" "dx \<noteq> 0 \<or> dy \<noteq> 0"
  shows "\<bar>dy * (h / 2 / \<bar>dy\<bar>)\<bar> = h / 2" and "\<bar>dx * (h / 2 / \<bar>dy\<bar>)\<bar> \<le> w / 2"
    and "0 < h / 2 / \<bar>dy\<bar>"
proof -
  have le: "\<bar>dx\<bar> \<le> w / h * \<bar>dy\<bar>" using assms(3) by simp
  have dy: "0 < \<bar>dy\<bar>"
  proof (rule ccontr)
    assume "\<not> 0 < \<bar>dy\<bar>"
    then have "dy = 0" by simp
    with le have "dx = 0" by simp
    with \<open>dy = 0\<close> assms(4) show False by simp
  qed
  show "0 < h / 2 / \<bar>dy\<bar>" using dy assms(2) by simp
  show "\<bar>dy * (h / 2 / \<bar>dy\<bar>)\<bar> = h / 2"
    using dy assms(2) by (simp add: abs_mult)
  have "h * \<bar>dx\<bar> \<le> w * \<bar>dy\<bar>"
    using le assms by (simp add: field_simps)
  then have "\<bar>dx\<bar> * (h / 2) \<le> w / 2 * \<bar>dy\<bar>" by (simp add: field_simps)
  then have "\<bar>dx\<bar> * (h / 2) / \<bar>dy\<bar> \<le> w / 2"
    using dy by (simp add: pos_divide_le_eq)
  then show "\<bar>dx * (h / 2 / \<bar>dy\<bar>)\<bar> \<le> w / 2"
    using assms(2) by (simp add: abs_mult)
qed

text \<open>
  In exact arithmetic, for a size with positive width and height, the point that the formula
  of \<open>getIntersection\<close> yields for two distinct centres is on the boundary of the rectangle
  around the first centre and on the ray toward the second, and for equal centres it is the
  first centre. The JavaScript function evaluates the same formula in doubles, where the
  quotient and the products are rounded: this lemma is about the formula, and does not say
  where the computed point lies.
\<close>

lemma getIntersection_exact_arithmetic:
  assumes "0 < width s" and "0 < height s"
  shows "getIntersection ca s ca = ca \<and>
    (ca \<noteq> cb \<longrightarrow>
      \<bar>p_x (getIntersection ca s cb) - p_x ca\<bar> \<le> width s / 2 \<and>
      \<bar>p_y (getIntersection ca s cb) - p_y ca\<bar> \<le> height s / 2 \<and>
      (\<bar>p_x (getIntersection ca s cb) - p_x ca\<bar> = width s / 2 \<or>
       \<bar>p_y (getIntersection ca s cb) - p_y ca\<bar> = height s / 2) \<and>
      (\<exists>k>0. p_x (getIntersection ca s cb) = p_x ca + k * (p_x cb - p_x ca) \<and>
              p_y (getIntersection ca s cb) = p_y ca + k * (p_y cb - p_y ca)))"
proof (intro conjI impI)
  show "getIntersection ca s ca = ca" by (simp add: getIntersection_def)
next
  assume ne: "ca \<noteq> cb"
  define dx where "dx = p_x cb - p_x ca"
  define dy where "dy = p_y cb - p_y ca"
  define w where "w = width s"
  define h where "h = height s"
  have nz: "dx \<noteq> 0 \<or> dy \<noteq> 0" using point_neq [OF ne] by (simp add: dx_def dy_def)
  have pos: "0 < w" "0 < h" using assms by (simp_all add: w_def h_def)
  let ?p = "getIntersection ca s cb"
  show "\<bar>p_x ?p - p_x ca\<bar> \<le> width s / 2"
  proof (cases "\<bar>dx\<bar> > w / h * \<bar>dy\<bar>")
    case True
    then have "p_x ?p - p_x ca = dx * (w / 2 / \<bar>dx\<bar>)"
      using nz by (auto simp add: getIntersection_def Let_def dx_def dy_def w_def h_def)
    then show ?thesis using exit_vertical_edge(1) [OF pos True] by (simp add: w_def)
  next
    case False
    then have "p_x ?p - p_x ca = dx * (h / 2 / \<bar>dy\<bar>)"
      using nz by (auto simp add: getIntersection_def Let_def dx_def dy_def w_def h_def)
    then show ?thesis using exit_horizontal_edge(2) [OF pos False nz] by (simp add: w_def)
  qed
  show "\<bar>p_y ?p - p_y ca\<bar> \<le> height s / 2"
  proof (cases "\<bar>dx\<bar> > w / h * \<bar>dy\<bar>")
    case True
    then have "p_y ?p - p_y ca = dy * (w / 2 / \<bar>dx\<bar>)"
      using nz by (auto simp add: getIntersection_def Let_def dx_def dy_def w_def h_def)
    then show ?thesis using exit_vertical_edge(2) [OF pos True] by (simp add: h_def)
  next
    case False
    then have "p_y ?p - p_y ca = dy * (h / 2 / \<bar>dy\<bar>)"
      using nz by (auto simp add: getIntersection_def Let_def dx_def dy_def w_def h_def)
    then show ?thesis using exit_horizontal_edge(1) [OF pos False nz] by (simp add: h_def)
  qed
  show "\<bar>p_x ?p - p_x ca\<bar> = width s / 2 \<or> \<bar>p_y ?p - p_y ca\<bar> = height s / 2"
  proof (cases "\<bar>dx\<bar> > w / h * \<bar>dy\<bar>")
    case True
    then have "p_x ?p - p_x ca = dx * (w / 2 / \<bar>dx\<bar>)"
      using nz by (auto simp add: getIntersection_def Let_def dx_def dy_def w_def h_def)
    then show ?thesis using exit_vertical_edge(1) [OF pos True] by (simp add: w_def)
  next
    case False
    then have "p_y ?p - p_y ca = dy * (h / 2 / \<bar>dy\<bar>)"
      using nz by (auto simp add: getIntersection_def Let_def dx_def dy_def w_def h_def)
    then show ?thesis using exit_horizontal_edge(1) [OF pos False nz] by (simp add: h_def)
  qed
  show "\<exists>k>0. p_x ?p = p_x ca + k * (p_x cb - p_x ca) \<and> p_y ?p = p_y ca + k * (p_y cb - p_y ca)"
  proof (cases "\<bar>dx\<bar> > w / h * \<bar>dy\<bar>")
    case True
    then have "p_x ?p = p_x ca + (w / 2 / \<bar>dx\<bar>) * dx" "p_y ?p = p_y ca + (w / 2 / \<bar>dx\<bar>) * dy"
      using nz by (auto simp add: getIntersection_def Let_def dx_def dy_def w_def h_def)
    then show ?thesis using exit_vertical_edge(3) [OF pos True] unfolding dx_def dy_def by blast
  next
    case False
    then have "p_x ?p = p_x ca + (h / 2 / \<bar>dy\<bar>) * dx" "p_y ?p = p_y ca + (h / 2 / \<bar>dy\<bar>) * dy"
      using nz by (auto simp add: getIntersection_def Let_def dx_def dy_def w_def h_def)
    then show ?thesis using exit_horizontal_edge(3) [OF pos False nz] unfolding dx_def dy_def by blast
  qed
qed

subsection \<open>Entity graph: deleting a table\<close>

text \<open>
  Claim C4. Deleting the table with id \<open>i\<close> removes the tables with that id and exactly the
  relationships whose source table id or target table id is \<open>i\<close>: a table or relationship
  is present afterwards if and only if it was present before and does not carry or reference
  \<open>i\<close>, and the remaining tables and relationships are the same objects in the same order.
\<close>

theorem table_delete_cascade:
  "(\<forall>t. t \<in> set (tables (handleTableDelete i st)) \<longleftrightarrow> t \<in> set (tables st) \<and> t_id t \<noteq> i) \<and>
   filter (\<lambda>t. t_id t \<noteq> i) (tables (handleTableDelete i st))
     = filter (\<lambda>t. t_id t \<noteq> i) (tables st) \<and>
   (\<forall>r. r \<in> set (relationships (handleTableDelete i st)) \<longleftrightarrow>
        r \<in> set (relationships st) \<and> \<not> (sourceTableId r = i \<or> targetTableId r = i)) \<and>
   filter (\<lambda>r. \<not> (sourceTableId r = i \<or> targetTableId r = i))
       (relationships (handleTableDelete i st))
     = filter (\<lambda>r. \<not> (sourceTableId r = i \<or> targetTableId r = i)) (relationships st)"
  by (auto simp add: handleTableDelete_def intro: filter_cong)

theorem table_delete_cascade_witness:
  "tables (handleTableDelete ''1'' initialCanvas) = [initialTables ! 1] \<and>
   relationships (handleTableDelete ''1'' initialCanvas) = [] \<and>
   tables (handleTableDelete ''3'' initialCanvas) = initialTables \<and>
   relationships (handleTableDelete ''3'' initialCanvas) = initialRelationships"
  using table_delete_cascade [of "''1''" initialCanvas]
    table_delete_cascade [of "''3''" initialCanvas]
  by (simp add: handleTableDelete_def initialCanvas_def initialTables_def
        initialRelationships_def)

subsection \<open>Entity graph: removing a field\<close>

text \<open>Removing a field goes through \<open>handleTableUpdate\<close> only, which never touches the
  relationships.\<close>

lemma handleRemoveField_relationships:
  "relationships (handleRemoveField table fieldId st) = relationships st"
  by (simp add: handleRemoveField_def handleTableUpdate_def)

text \<open>
  Claim C1 says that removing a field also removes every relationship whose source or target
  field is that field. On the initial graph of App.tsx, removing the field \<open>f1\<close> of the table
  \<open>Users\<close> takes the field out of the table and leaves the relationships as they were: the
  relationship \<open>r1\<close>, whose target field is \<open>f1\<close>, is still there.
\<close>

theorem remove_field_leaves_relationship:
  "map f_id (t_fields (hd (tables (handleRemoveField (hd initialTables) ''f1'' initialCanvas))))
     = [''f2'', ''f3''] \<and>
   relationships (handleRemoveField (hd initialTables) ''f1'' initialCanvas)
     = initialRelationships \<and>
   (\<exists>r \<in> set (relationships (handleRemoveField (hd initialTables) ''f1'' initialCanvas)).
      targetTableId r = ''1'' \<and> targetFieldId r = Some ''f1'')"
  by (simp add: handleRemoveField_def handleTableUpdate_def initialCanvas_def initialTables_def
        initialRelationships_def spread_def no_updates_def)


subsection \<open>Connect gesture: self and duplicate connections\<close>

lemma connectionExists_iff:
  "connectionExists cs t f rels \<longleftrightarrow> (\<exists>r \<in> set rels. joins (cs_tableId cs, cs_fieldId cs) (t, f) r)"
  by (auto simp add: connectionExists_def joins_def list_ex_iff)

lemma handleConnect_start:
  "connectionStart st = None \<Longrightarrow>
     relationships (handleConnect t f n x st) = relationships st \<and>
     connectionStart (handleConnect t f n x st) = Some \<lparr> cs_tableId = t, cs_fieldId = f \<rparr>"
  by (simp add: handleConnect_def Let_def)

lemma handleConnect_end_idle:
  "connectionStart st = Some cs \<Longrightarrow> connectionStart (handleConnect t f n x st) = None"
  by (simp add: handleConnect_def Let_def)

lemma handleConnect_self:
  "connectionStart st = Some cs \<Longrightarrow> cs_tableId cs = t \<Longrightarrow> cs_fieldId cs = f \<Longrightarrow>
     relationships (handleConnect t f n x st) = relationships st"
  by (simp add: handleConnect_def Let_def)

lemma handleConnect_existing:
  "connectionStart st = Some cs \<Longrightarrow>
   \<exists>r \<in> set (relationships st). joins (cs_tableId cs, cs_fieldId cs) (t, f) r \<Longrightarrow>
     relationships (handleConnect t f n x st) = relationships st"
  by (simp add: handleConnect_def Let_def connectionExists_iff)

lemma handleConnect_new:
  "connectionStart st = Some cs \<Longrightarrow> \<not> (cs_tableId cs = t \<and> cs_fieldId cs = f) \<Longrightarrow>
   \<not> (\<exists>r \<in> set (relationships st). joins (cs_tableId cs, cs_fieldId cs) (t, f) r) \<Longrightarrow>
     relationships (handleConnect t f n x st) =
       relationships st @
         [\<lparr> r_id = n, sourceTableId = cs_tableId cs, sourceFieldId = cs_fieldId cs,
            targetTableId = t, targetFieldId = f, cardinality = ''1:N'', label = None,
            color = connectionColor cs t f (relationships st) x \<rparr>]"
  by (simp add: handleConnect_def Let_def connectionExists_iff)

lemma joins_sym: "joins a b r = joins b a r"
  by (auto simp add: joins_def)

lemma gesture_idle:
  "connectionStart st = None \<Longrightarrow> connectionStart (connectGesture a b n x st) = None"
  using handleConnect_start [of st "fst a" "snd a" n x]
  by (simp add: connectGesture_def handleConnect_end_idle)

lemma gesture_self:
  "connectionStart st = None \<Longrightarrow> relationships (connectGesture a a n x st) = relationships st"
  using handleConnect_start [of st "fst a" "snd a" n x]
  by (simp add: connectGesture_def handleConnect_self)

lemma gesture_existing:
  "connectionStart st = None \<Longrightarrow> \<exists>r \<in> set (relationships st). joins a b r \<Longrightarrow>
     relationships (connectGesture a b n x st) = relationships st"
  using handleConnect_start [of st "fst a" "snd a" n x]
    handleConnect_existing [of "handleConnect (fst a) (snd a) n x st"
       "\<lparr> cs_tableId = fst a, cs_fieldId = snd a \<rparr>" "fst b" "snd b" n x]
  by (simp add: connectGesture_def)

lemma gesture_new:
  assumes "connectionStart st = None" "a \<noteq> b" "\<not> (\<exists>r \<in> set (relationships st). joins a b r)"
  shows "\<exists>r. relationships (connectGesture a b n x st) = relationships st @ [r] \<and> joins a b r"
proof -
  let ?st1 = "handleConnect (fst a) (snd a) n x st"
  let ?cs = "\<lparr> cs_tableId = fst a, cs_fieldId = snd a \<rparr>"
  have s1: "relationships ?st1 = relationships st" "connectionStart ?st1 = Some ?cs"
    using handleConnect_start [OF assms(1)] by simp_all
  have ne: "\<not> (cs_tableId ?cs = fst b \<and> cs_fieldId ?cs = snd b)"
    using assms(2) by (auto simp add: prod_eq_iff)
  have nj: "\<not> (\<exists>r \<in> set (relationships ?st1). joins (cs_tableId ?cs, cs_fieldId ?cs) (fst b, snd b) r)"
    using assms(3) s1 by simp
  show ?thesis
    using handleConnect_new [OF s1(2) ne nj, of n x] s1(1)
    by (simp add: connectGesture_def joins_def)
qed

lemma gesture_count:
  assumes "connectionStart st = None"
  shows "length (filter (joins a b) (relationships (connectGesture a b n x st)))
           \<le> max 1 (length (filter (joins a b) (relationships st)))"
proof (cases "a = b")
  case True
  then show ?thesis using gesture_self [OF assms] by simp
next
  case False
  show ?thesis
  proof (cases "\<exists>r \<in> set (relationships st). joins a b r")
    case True
    then show ?thesis using gesture_existing [OF assms True] by simp
  next
    case nj: False
    then have "filter (joins a b) (relationships st) = []"
      by (simp add: filter_empty_conv)
    moreover obtain r where "relationships (connectGesture a b n x st) = relationships st @ [r]"
      using gesture_new [OF assms False nj] by blast
    ultimately show ?thesis by simp
  qed
qed


lemma handleConnect_tables: "tables (handleConnect t f n x st) = tables st"
  by (simp add: handleConnect_def Let_def split: option.splits)

lemma gesture_joined:
  assumes "connectionStart st = None" "a \<noteq> b"
  shows "\<exists>r \<in> set (relationships (connectGesture a b n x st)). joins a b r"
proof (cases "\<exists>r \<in> set (relationships st). joins a b r")
  case True
  then show ?thesis using gesture_existing [OF assms(1) True] by simp
next
  case False
  then show ?thesis using gesture_new [OF assms(1) assms(2) False, of n x] by auto
qed

lemma gesture_twice:
  assumes "connectionStart st = None"
  shows "relationships (connectGesture a b n' x' (connectGesture a b n x st))
           = relationships (connectGesture a b n x st)"
    and "relationships (connectGesture b a n' x' (connectGesture a b n x st))
           = relationships (connectGesture a b n x st)"
proof -
  let ?st1 = "connectGesture a b n x st"
  have idle: "connectionStart ?st1 = None" using gesture_idle [OF assms] .
  show "relationships (connectGesture a b n' x' ?st1) = relationships ?st1"
  proof (cases "a = b")
    case True
    then show ?thesis using gesture_self [OF idle] by simp
  next
    case False
    then show ?thesis using gesture_existing [OF idle gesture_joined [OF assms False]] by simp
  qed
  show "relationships (connectGesture b a n' x' ?st1) = relationships ?st1"
  proof (cases "a = b")
    case True
    then show ?thesis using gesture_self [OF idle] by simp
  next
    case False
    have "\<exists>r \<in> set (relationships ?st1). joins b a r"
      using gesture_joined [OF assms False, of n x] by (simp add: joins_sym)
    then show ?thesis using gesture_existing [OF idle] by simp
  qed
qed

lemma gesture_count_exact:
  assumes "connectionStart st = None" "a \<noteq> b"
  shows "length (filter (joins a b) (relationships (connectGesture a b n x st)))
           = max 1 (length (filter (joins a b) (relationships st)))"
proof (cases "\<exists>r \<in> set (relationships st). joins a b r")
  case True
  then have "filter (joins a b) (relationships st) \<noteq> []"
    by (simp add: filter_empty_conv)
  then have "1 \<le> length (filter (joins a b) (relationships st))"
    by (cases "filter (joins a b) (relationships st)") simp_all
  then show ?thesis using gesture_existing [OF assms(1) True] by simp
next
  case nj: False
  then have e: "filter (joins a b) (relationships st) = []"
    by (simp add: filter_empty_conv)
  obtain r where "relationships (connectGesture a b n x st) = relationships st @ [r]" "joins a b r"
    using gesture_new [OF assms nj] by blast
  then show ?thesis using e by simp
qed

text \<open>
  Claim C3, amended. Completing the connect gesture (a call of \<open>handleConnect\<close> while a
  connection is awaiting its target) leaves the relationships and the tables as they were
  when the target endpoint is the source endpoint, or when some relationship already joins
  the two endpoints in the same or in the mirrored direction; the handler has no failing
  branch. Hence, from an idle canvas, making the gesture from \<open>a\<close> to \<open>b\<close> and then making
  it again, from \<open>a\<close> to \<open>b\<close> or from \<open>b\<close> to \<open>a\<close>, changes nothing the second time and
  adds at most one relationship in all: for distinct endpoints the number of relationships
  joining \<open>a\<close> and \<open>b\<close> afterwards is one when none joined them before, and otherwise the
  number from before.
\<close>

theorem connect_self_or_duplicate_noop:
  "(connectionStart st = Some cs \<longrightarrow>
      (cs_tableId cs = t \<and> cs_fieldId cs = f \<or>
       (\<exists>r \<in> set (relationships st). joins (cs_tableId cs, cs_fieldId cs) (t, f) r) \<longrightarrow>
         relationships (handleConnect t f n x st) = relationships st \<and>
         tables (handleConnect t f n x st) = tables st)) \<and>
   (connectionStart st = None \<longrightarrow>
      relationships (connectGesture a b n' x' (connectGesture a b n x st))
        = relationships (connectGesture a b n x st) \<and>
      relationships (connectGesture b a n' x' (connectGesture a b n x st))
        = relationships (connectGesture a b n x st) \<and>
      length (filter (joins a b) (relationships (connectGesture a b n' x' (connectGesture a b n x st))))
        \<le> max 1 (length (filter (joins a b) (relationships st))) \<and>
      length (filter (joins a b) (relationships (connectGesture b a n' x' (connectGesture a b n x st))))
        \<le> max 1 (length (filter (joins a b) (relationships st))) \<and>
      (a \<noteq> b \<longrightarrow>
         length (filter (joins a b)
                   (relationships (connectGesture a b n' x' (connectGesture a b n x st))))
           = max 1 (length (filter (joins a b) (relationships st))) \<and>
         length (filter (joins a b)
                   (relationships (connectGesture b a n' x' (connectGesture a b n x st))))
           = max 1 (length (filter (joins a b) (relationships st)))))"
proof (intro conjI impI)
  assume cs: "connectionStart st = Some cs"
    and d: "cs_tableId cs = t \<and> cs_fieldId cs = f \<or>
       (\<exists>r \<in> set (relationships st). joins (cs_tableId cs, cs_fieldId cs) (t, f) r)"
  show "relationships (handleConnect t f n x st) = relationships st"
    using d handleConnect_self [OF cs] handleConnect_existing [OF cs] by blast
  show "tables (handleConnect t f n x st) = tables st" by (rule handleConnect_tables)
next
  assume idle: "connectionStart st = None"
  show a1: "relationships (connectGesture a b n' x' (connectGesture a b n x st))
        = relationships (connectGesture a b n x st)"
    by (rule gesture_twice(1) [OF idle])
  show a2: "relationships (connectGesture b a n' x' (connectGesture a b n x st))
        = relationships (connectGesture a b n x st)"
    by (rule gesture_twice(2) [OF idle])
  show "length (filter (joins a b) (relationships (connectGesture a b n' x' (connectGesture a b n x st))))
        \<le> max 1 (length (filter (joins a b) (relationships st)))"
    using gesture_count [OF idle, of a b n x] a1 by simp
  show "length (filter (joins a b) (relationships (connectGesture b a n' x' (connectGesture a b n x st))))
        \<le> max 1 (length (filter (joins a b) (relationships st)))"
    using gesture_count [OF idle, of a b n x] a2 by simp
  assume ne: "a \<noteq> b"
  show "length (filter (joins a b)
                   (relationships (connectGesture a b n' x' (connectGesture a b n x st))))
           = max 1 (length (filter (joins a b) (relationships st)))"
    using gesture_count_exact [OF idle ne, of n x] a1 by simp
  show "length (filter (joins a b)
                   (relationships (connectGesture b a n' x' (connectGesture a b n x st))))
           = max 1 (length (filter (joins a b) (relationships st)))"
    using gesture_count_exact [OF idle ne, of n x] a2 by simp
qed

theorem connect_self_or_duplicate_noop_witness:
  "connectionStart (handleConnect ''2'' (Some ''p2'') ''n0'' 0 initialCanvas)
     = Some \<lparr> cs_tableId = ''2'', cs_fieldId = Some ''p2'' \<rparr> \<and>
   (\<exists>r \<in> set (relationships (handleConnect ''2'' (Some ''p2'') ''n0'' 0 initialCanvas)).
      joins (''2'', Some ''p2'') (''1'', Some ''f1'') r) \<and>
   relationships (handleConnect ''1'' (Some ''f1'') ''n1'' 0
                   (handleConnect ''2'' (Some ''p2'') ''n0'' 0 initialCanvas))
     = initialRelationships \<and>
   connectionStart initialCanvas = None \<and>
   (''1'', Some ''f2'') \<noteq> (''2'', Some ''p3'') \<and>
   length (filter (joins (''1'', Some ''f2'') (''2'', Some ''p3''))
             (relationships initialCanvas)) = 0 \<and>
   length (relationships (connectGesture (''1'', Some ''f2'') (''2'', Some ''p3'') ''n1'' 0
             initialCanvas)) = 2 \<and>
   length (relationships (connectGesture (''2'', Some ''p3'') (''1'', Some ''f2'') ''n2'' 0
             (connectGesture (''1'', Some ''f2'') (''2'', Some ''p3'') ''n1'' 0 initialCanvas))) = 2 \<and>
   length (filter (joins (''1'', Some ''f2'') (''2'', Some ''p3''))
             (relationships (connectGesture (''2'', Some ''p3'') (''1'', Some ''f2'') ''n2'' 0
                (connectGesture (''1'', Some ''f2'') (''2'', Some ''p3'') ''n1'' 0 initialCanvas)))) = 1"
proof -
  have awaiting: "connectionStart (handleConnect ''2'' (Some ''p2'') ''n0'' 0 initialCanvas)
     = Some \<lparr> cs_tableId = ''2'', cs_fieldId = Some ''p2'' \<rparr>"
    by (simp add: handleConnect_def initialCanvas_def)
  have rels: "relationships (handleConnect ''2'' (Some ''p2'') ''n0'' 0 initialCanvas)
     = initialRelationships"
    by (simp add: handleConnect_def initialCanvas_def)
  have dup: "\<exists>r \<in> set (relationships (handleConnect ''2'' (Some ''p2'') ''n0'' 0 initialCanvas)).
      joins (''2'', Some ''p2'') (''1'', Some ''f1'') r"
    by (simp add: rels initialRelationships_def joins_def)
  have idle: "connectionStart initialCanvas = None"
    by (simp add: initialCanvas_def)
  have one: "relationships (connectGesture (''1'', Some ''f2'') (''2'', Some ''p3'') ''n1'' 0
             initialCanvas) =
      initialRelationships @
        [\<lparr> r_id = ''n1'', sourceTableId = ''1'', sourceFieldId = Some ''f2'',
           targetTableId = ''2'', targetFieldId = Some ''p3'', cardinality = ''1:N'',
           label = None, color = Some ''#3b82f6'' \<rparr>]"
    by (simp add: connectGesture_def handleConnect_def initialCanvas_def initialRelationships_def
          connectionExists_def connectionColor_def inheritColor_def Let_def)
  have cnt: "length (filter (joins (''1'', Some ''f2'') (''2'', Some ''p3''))
       (relationships (connectGesture (''1'', Some ''f2'') (''2'', Some ''p3'') ''n1'' 0
             initialCanvas))) = 1"
    by (simp add: one initialRelationships_def joins_def)
  show ?thesis
    using connect_self_or_duplicate_noop
      [where st = "handleConnect ''2'' (Some ''p2'') ''n0'' 0 initialCanvas"
         and cs = "\<lparr> cs_tableId = ''2'', cs_fieldId = Some ''p2'' \<rparr>"
         and t = "''1''" and f = "Some ''f1''" and n = "''n1''" and x = 0]
      connect_self_or_duplicate_noop
      [where st = initialCanvas and a = "(''1'', Some ''f2'')" and b = "(''2'', Some ''p3'')"
         and n = "''n1''" and x = 0 and n' = "''n2''" and x' = 0]
      awaiting rels dup idle one cnt
    by (simp add: initialCanvas_def initialRelationships_def joins_def)
qed


text \<open>
  Claim C3 as stated (never more than one relationship between the pair, for every graph
  state) fails on a graph that already holds two relationships between the pair: the two
  gestures add nothing, and two relationships join the pair afterwards, in either order of
  the second gesture.
\<close>

theorem connect_twice_on_doubled_pair:
  "connectionStart doubledCanvas = None \<and>
   length (filter (joins (''2'', Some ''p2'') (''1'', Some ''f1'')) (relationships doubledCanvas)) = 2 \<and>
   length (filter (joins (''2'', Some ''p2'') (''1'', Some ''f1''))
     (relationships
        (connectGesture (''1'', Some ''f1'') (''2'', Some ''p2'') ''n2'' 0
           (connectGesture (''2'', Some ''p2'') (''1'', Some ''f1'') ''n1'' 0 doubledCanvas)))) = 2 \<and>
   length (filter (joins (''2'', Some ''p2'') (''1'', Some ''f1''))
     (relationships
        (connectGesture (''2'', Some ''p2'') (''1'', Some ''f1'') ''n2'' 0
           (connectGesture (''2'', Some ''p2'') (''1'', Some ''f1'') ''n1'' 0 doubledCanvas)))) = 2"
  by (simp add: doubledCanvas_def initialCanvas_def initialRelationships_def connectGesture_def
        handleConnect_def connectionExists_def joins_def Let_def)


subsection \<open>Cardinality of relationships made on the canvas\<close>

lemma step_cardinalities:
  "cardinality ` set (relationships (canvasStep e st))
     \<subseteq> insert ''1:N'' (cardinality ` set (relationships st))"
proof (cases e)
  case (MouseDown inMenu button cx cy)
  then show ?thesis by (auto simp add: handleMouseDown_def Let_def)
next
  case (MouseMove cx cy mx my rect)
  then show ?thesis by (auto simp add: handleMouseMove_def Let_def split: option.splits)
next
  case MouseUp
  then show ?thesis by (auto simp add: handleMouseUp_def)
next
  case (Wheel d)
  then show ?thesis by (auto simp add: handleWheel_def)
next
  case (TableMouseDown i)
  then show ?thesis by (auto simp add: handleTableMouseDown_def Let_def)
next
  case (TableUpdate i u)
  then show ?thesis by (auto simp add: handleTableUpdate_def)
next
  case (RemoveField t f)
  then show ?thesis by (auto simp add: handleRemoveField_def handleTableUpdate_def)
next
  case (TableDelete i)
  then show ?thesis by (auto simp add: handleTableDelete_def)
next
  case (Connect t f n x)
  then show ?thesis by (auto simp add: handleConnect_def Let_def split: option.splits)
next
  case (DisconnectField t f)
  then show ?thesis by (auto simp add: handleDisconnectField_def)
next
  case (RelationshipDelete i)
  then show ?thesis by (auto simp add: handleRelationshipDelete_def)
next
  case (RelationshipContextMenu cx cy rect r)
  then show ?thesis by (auto simp add: handleRelationshipContextMenu_def split: option.splits)
next
  case (FieldContextMenu cx cy rect t f c)
  then show ?thesis by (auto simp add: handleFieldContextMenu_def Let_def split: option.splits)
next
  case (ColorChange c)
  then show ?thesis by (auto simp add: handleColorChange_def split: option.splits)
next
  case ZoomOutButton
  then show ?thesis by (auto simp add: zoomOutButton_def)
next
  case ZoomInButton
  then show ?thesis by (auto simp add: zoomInButton_def)
next
  case ExitFocusButton
  then show ?thesis by (auto simp add: exitFocusButton_def)
next
  case MenuFocusEntry
  then show ?thesis by (auto simp add: menuFocusEntry_def split: option.splits)
next
  case MenuDeleteEntry
  then show ?thesis
    by (auto simp add: menuDeleteEntry_def handleRelationshipDelete_def split: option.splits)
next
  case CancelConnectionButton
  then show ?thesis by (auto simp add: cancelConnectionButton_def)
qed

lemma run_cardinalities:
  "cardinality ` set (relationships (canvasRun es st))
     \<subseteq> insert ''1:N'' (cardinality ` set (relationships st))"
proof (induction es arbitrary: st)
  case Nil
  then show ?case by auto
next
  case (Cons e es)
  have "cardinality ` set (relationships (canvasRun es (canvasStep e st)))
          \<subseteq> insert ''1:N'' (cardinality ` set (relationships (canvasStep e st)))"
    by (rule Cons.IH)
  also have "\<dots> \<subseteq> insert ''1:N'' (cardinality ` set (relationships st))"
    using step_cardinalities [of e st] by auto
  finally show ?case by simp
qed

lemma handleConnect_appends:
  "relationships (handleConnect t f n x st) = relationships st \<or>
   (\<exists>r. relationships (handleConnect t f n x st) = relationships st @ [r] \<and>
        r_id r = n \<and> cardinality r = ''1:N'')"
  by (auto simp add: handleConnect_def Let_def split: option.splits)

text \<open>
  Claim C10. A call of \<open>handleConnect\<close> either leaves the relationships as they were or
  appends exactly one relationship, and that relationship has cardinality \<open>'1:N'\<close>, whatever
  the endpoints. Over any sequence of the canvas's interactive operations every relationship
  present at the end has cardinality \<open>'1:N'\<close> or the cardinality of a relationship that was
  already there at the start; so when no relationship has cardinality \<open>'1:1'\<close> or \<open>'N:M'\<close>
  at the start, none has at the end.
\<close>

theorem connect_cardinality_one_to_n:
  "(relationships (handleConnect t f n x st) = relationships st \<or>
    (\<exists>r. relationships (handleConnect t f n x st) = relationships st @ [r] \<and>
         r_id r = n \<and> cardinality r = ''1:N'')) \<and>
   (\<forall>r \<in> set (relationships (canvasRun es st)).
      cardinality r = ''1:N'' \<or> (\<exists>r0 \<in> set (relationships st). cardinality r = cardinality r0)) \<and>
   ((\<forall>r0 \<in> set (relationships st). cardinality r0 \<noteq> ''1:1'' \<and> cardinality r0 \<noteq> ''N:M'') \<longrightarrow>
    (\<forall>r \<in> set (relationships (canvasRun es st)).
       cardinality r \<noteq> ''1:1'' \<and> cardinality r \<noteq> ''N:M''))"
proof (intro conjI)
  show "relationships (handleConnect t f n x st) = relationships st \<or>
    (\<exists>r. relationships (handleConnect t f n x st) = relationships st @ [r] \<and>
         r_id r = n \<and> cardinality r = ''1:N'')"
    by (rule handleConnect_appends)
  show run: "\<forall>r \<in> set (relationships (canvasRun es st)).
      cardinality r = ''1:N'' \<or> (\<exists>r0 \<in> set (relationships st). cardinality r = cardinality r0)"
    using run_cardinalities [of es st] by auto
  show "(\<forall>r0 \<in> set (relationships st). cardinality r0 \<noteq> ''1:1'' \<and> cardinality r0 \<noteq> ''N:M'') \<longrightarrow>
    (\<forall>r \<in> set (relationships (canvasRun es st)).
       cardinality r \<noteq> ''1:1'' \<and> cardinality r \<noteq> ''N:M'')"
  proof (intro impI ballI)
    fix r
    assume a: "\<forall>r0 \<in> set (relationships st). cardinality r0 \<noteq> ''1:1'' \<and> cardinality r0 \<noteq> ''N:M''"
      and r: "r \<in> set (relationships (canvasRun es st))"
    from run r have "cardinality r = ''1:N'' \<or> (\<exists>r0 \<in> set (relationships st). cardinality r = cardinality r0)"
      by blast
    then show "cardinality r \<noteq> ''1:1'' \<and> cardinality r \<noteq> ''N:M''"
      using a by auto
  qed
qed

theorem connect_cardinality_one_to_n_witness:
  "list_all (\<lambda>r0. cardinality r0 \<noteq> ''1:1'' \<and> cardinality r0 \<noteq> ''N:M'')
     (relationships initialCanvas) \<and>
   map cardinality (relationships (canvasRun sampleEvents initialCanvas)) = [''N:1'', ''1:N''] \<and>
   list_all (\<lambda>r. cardinality r \<noteq> ''1:1'' \<and> cardinality r \<noteq> ''N:M'')
     (relationships (canvasRun sampleEvents initialCanvas))"
proof -
  have init: "\<forall>r0 \<in> set (relationships initialCanvas).
      cardinality r0 \<noteq> ''1:1'' \<and> cardinality r0 \<noteq> ''N:M''"
    by (simp add: initialCanvas_def initialRelationships_def)
  have run: "map cardinality (relationships (canvasRun sampleEvents initialCanvas))
      = [''N:1'', ''1:N'']"
    by (simp add: sampleEvents_def initialCanvas_def initialRelationships_def handleConnect_def
          connectionExists_def connectionColor_def inheritColor_def Let_def
          handleRelationshipContextMenu_def handleColorChange_def handleTableDelete_def)
  show ?thesis
    using connect_cardinality_one_to_n [of "''2''" "Some ''p3''" "''n1''" "1 / 2" initialCanvas sampleEvents]
      init run
    by (simp add: list_all_iff)
qed


subsection \<open>Field anchors\<close>











subsection \<open>Routing: relationships whose endpoints do not resolve\<close>












lemma afterFieldRemoval_relationships: "relationships afterFieldRemoval = initialRelationships"
  by (simp add: afterFieldRemoval_def handleRemoveField_def handleTableUpdate_def
        initialCanvas_def)




subsection \<open>Colour of a new relationship\<close>

lemma randomColor_palette:
  assumes "0 \<le> x" "x < 1"
  shows "\<exists>c \<in> set CONNECTION_COLORS. randomColor x = Some c"
proof -
  have len: "length CONNECTION_COLORS = 12" by (simp add: CONNECTION_COLORS_def)
  have "0 \<le> x * 12" "x * 12 < 12" using assms by simp_all
  then have "0 \<le> \<lfloor>x * 12\<rfloor>" "\<lfloor>x * 12\<rfloor> < 12" by (simp_all add: floor_less_iff)
  then have fl: "0 \<le> \<lfloor>x * real (length CONNECTION_COLORS)\<rfloor>"
      "\<lfloor>x * real (length CONNECTION_COLORS)\<rfloor> < int (length CONNECTION_COLORS)"
    by (simp_all add: len)
  then have idx: "nat \<lfloor>x * real (length CONNECTION_COLORS)\<rfloor> < length CONNECTION_COLORS"
    by arith
  have "randomColor x = Some (CONNECTION_COLORS ! nat \<lfloor>x * real (length CONNECTION_COLORS)\<rfloor>)"
    using fl by (simp add: randomColor_def Let_def)
  then show ?thesis using nth_mem [OF idx] by auto
qed


lemma connectionColor_unconnected:
  assumes "\<not> (\<exists>r \<in> set rels. touchesTable (cs_tableId cs) r \<or> touchesTable t r)"
  shows "connectionColor cs t f rels x = randomColor x"
proof -
  have n1: "find (\<lambda>rel. (sourceTableId rel = cs_tableId cs \<and> sourceFieldId rel = cs_fieldId cs) \<or>
                        (targetTableId rel = cs_tableId cs \<and> targetFieldId rel = cs_fieldId cs))
              rels = None"
    using assms by (auto simp add: find_None_iff touchesTable_def)
  have n2: "find (\<lambda>rel. (sourceTableId rel = t \<and> sourceFieldId rel = f) \<or>
                        (targetTableId rel = t \<and> targetFieldId rel = f)) rels = None"
    using assms by (auto simp add: find_None_iff touchesTable_def)
  have n3: "find (\<lambda>rel. sourceTableId rel = cs_tableId cs \<or> targetTableId rel = cs_tableId cs)
              rels = None"
    using assms by (auto simp add: find_None_iff touchesTable_def)
  have n4: "find (\<lambda>rel. sourceTableId rel = t \<or> targetTableId rel = t) rels = None"
    using assms by (auto simp add: find_None_iff touchesTable_def)
  show ?thesis
    by (simp add: connectionColor_def Let_def n1 n2 n3 n4 inheritColor_def)
qed

text \<open>The part of the priority list that the code does follow: connecting two tables that
  no relationship touches gives the new relationship a colour of the palette.\<close>

lemma unconnected_tables_palette:
  assumes "connectionStart st = Some cs" "cs_tableId cs \<noteq> t" "0 \<le> x" "x < 1"
    and "\<not> (\<exists>r \<in> set (relationships st). touchesTable (cs_tableId cs) r \<or> touchesTable t r)"
  shows "\<exists>r. relationships (handleConnect t f n x st) = relationships st @ [r] \<and>
           (\<exists>c \<in> set CONNECTION_COLORS. color r = Some c)"
proof -
  have nj: "\<not> (\<exists>r \<in> set (relationships st). joins (cs_tableId cs, cs_fieldId cs) (t, f) r)"
    using assms(5) by (auto simp add: joins_def touchesTable_def)
  have cc: "connectionColor cs t f (relationships st) x = randomColor x"
    using assms(5) by (rule connectionColor_unconnected)
  obtain c where c: "c \<in> set CONNECTION_COLORS" "randomColor x = Some c"
    using randomColor_palette [OF assms(3,4)] by auto
  show ?thesis
    using handleConnect_new [of st cs t f n x] assms(1,2) nj cc c by simp
qed

lemma generatedThenConnected_relationships:
  "relationships generatedThenConnected =
     [\<lparr> r_id = ''g1'', sourceTableId = ''1'', sourceFieldId = None,
        targetTableId = ''2'', targetFieldId = None, cardinality = ''1:N'',
        label = Some ''writes'', color = None \<rparr>,
      \<lparr> r_id = ''n1'', sourceTableId = ''1'', sourceFieldId = Some ''f1'',
        targetTableId = ''2'', targetFieldId = Some ''p2'', cardinality = ''1:N'',
        label = None, color = Some ''#3b82f6'' \<rparr>]"
  by (simp add: generatedThenConnected_def generatedCanvas_def connectGesture_def
        handleConnect_def initialCanvas_def connectionExists_def connectionColor_def
        inheritColor_def randomColor_def CONNECTION_COLORS_def Let_def)

lemma generatedThenConnected_idle: "connectionStart generatedThenConnected = None"
  by (simp add: generatedThenConnected_def generatedCanvas_def connectGesture_def
        handleConnect_def initialCanvas_def Let_def)

text \<open>
  Claim C5 says that the colour of a new relationship is the first match of the priority
  list, whose third level is the colour of an existing relationship touching the source
  table. On a generated graph with one connection already drawn by hand, the table \<open>1\<close> is
  touched by the uncoloured generated relationship and by the blue one, and no relationship
  touches the field \<open>f2\<close> of table \<open>1\<close> or the field \<open>p3\<close> of table \<open>2\<close>. Connecting
  \<open>1.f2\<close> to \<open>2.p3\<close> gives the new relationship the palette colour
  \<open>CONNECTION_COLORS[floor(rnd * 12)]\<close> for every value \<open>rnd\<close> of \<open>Math.random()\<close>
  (\<open>#ef4444\<close> for 0), not the blue of the relationship that touches its source table:
  \<open>find\<close> stops at the uncoloured relationship.
\<close>

theorem first_found_uncoloured_gets_palette:
  "\<not> list_ex (touchesField ''1'' (Some ''f2'')) (relationships generatedThenConnected) \<and>
   \<not> list_ex (touchesField ''2'' (Some ''p3'')) (relationships generatedThenConnected) \<and>
   map color (filter (touchesTable ''1'') (relationships generatedThenConnected))
     = [None, Some ''#3b82f6''] \<and>
   map color (relationships
      (connectGesture (''1'', Some ''f2'') (''2'', Some ''p3'') ''n2'' x generatedThenConnected))
     = [None, Some ''#3b82f6'', randomColor x] \<and>
   map color (relationships
      (connectGesture (''1'', Some ''f2'') (''2'', Some ''p3'') ''n2'' 0 generatedThenConnected))
     = [None, Some ''#3b82f6'', Some ''#ef4444'']"
proof -
  have general: "map color (relationships
      (connectGesture (''1'', Some ''f2'') (''2'', Some ''p3'') ''n2'' y generatedThenConnected))
     = [None, Some ''#3b82f6'', randomColor y]" for y
    using generatedThenConnected_idle
    by (simp add: generatedThenConnected_relationships connectGesture_def handleConnect_def
          connectionExists_def connectionColor_def inheritColor_def Let_def)
  have r0: "randomColor 0 = Some ''#ef4444''"
    by (simp add: randomColor_def CONNECTION_COLORS_def Let_def)
  have touch: "\<not> list_ex (touchesField ''1'' (Some ''f2'')) (relationships generatedThenConnected) \<and>
   \<not> list_ex (touchesField ''2'' (Some ''p3'')) (relationships generatedThenConnected) \<and>
   map color (filter (touchesTable ''1'') (relationships generatedThenConnected))
     = [None, Some ''#3b82f6'']"
    by (simp add: generatedThenConnected_relationships touchesField_def touchesTable_def)
  show ?thesis using general [of x] general [of 0] r0 touch by simp
qed


subsection \<open>Importing a file\<close>

lemma arrayMember_iff:
  "arrayMember data k = Some xs \<longleftrightarrow> getMember data k = Inr (Some (JArray xs))"
proof (cases data)
  case (JObject kvs)
  show ?thesis
  proof (cases "map_of kvs k")
    case None
    then show ?thesis using JObject by simp
  next
    case (Some v)
    then show ?thesis using JObject by (cases v) simp_all
  qed
qed simp_all

lemma truthy_array: "jsTruthy v \<and> isArray v \<longleftrightarrow> (\<exists>xs. v = Some (JArray xs))"
proof (cases v)
  case None
  then show ?thesis by simp
next
  case (Some j)
  then show ?thesis by (cases j) simp_all
qed

lemma onload_accepts:
  assumes "parse content = Inr data" "arrayMember data ''tables'' = Some ts"
    "arrayMember data ''relationships'' = Some rs"
  shows "onload parse content g = (\<lparr> g_tables = Some (JArray ts), g_relationships = Some (JArray rs) \<rparr>, [])"
  using assms by (simp add: onload_def arrayMember_iff)

lemma onload_rejects:
  assumes "\<not> (\<exists>data ts rs. parse content = Inr data \<and> arrayMember data ''tables'' = Some ts \<and>
              arrayMember data ''relationships'' = Some rs)"
  shows "fst (onload parse content g) = g \<and> length (snd (onload parse content g)) = 1"
proof (cases "parse content")
  case (Inl e)
  then show ?thesis by (simp add: onload_def)
next
  case (Inr data)
  show ?thesis
  proof (cases "getMember data ''tables''")
    case (Inl e)
    then show ?thesis using Inr by (simp add: onload_def)
  next
    case tv: (Inr tablesV)
    show ?thesis
    proof (cases "jsTruthy tablesV \<and> isArray tablesV")
      case False
      then show ?thesis using Inr tv by (auto simp add: onload_def)
    next
      case True
      then obtain ts where ts: "tablesV = Some (JArray ts)" using truthy_array by blast
      show ?thesis
      proof (cases "getMember data ''relationships''")
        case (Inl e)
        then show ?thesis using Inr tv True by (simp add: onload_def)
      next
        case rv: (Inr relsV)
        show ?thesis
        proof (cases "jsTruthy relsV \<and> isArray relsV")
          case False
          then show ?thesis using Inr tv True rv by (auto simp add: onload_def)
        next
          case t2: True
          then obtain rs where rs: "relsV = Some (JArray rs)" using truthy_array by blast
          have "arrayMember data ''tables'' = Some ts" "arrayMember data ''relationships'' = Some rs"
            using tv ts rv rs by (simp_all add: arrayMember_iff)
          with assms Inr show ?thesis by blast
        qed
      qed
    qed
  qed
qed

text \<open>
  Claim C6. For every text of an imported file, the graph is replaced only if the text parses
  to a value in which both a \<open>tables\<close> member and a \<open>relationships\<close> member are present
  as arrays, and then it is replaced by exactly these two arrays, with no alert; in every
  other case (an unparsable text included) exactly one alert is shown and the current tables
  and relationships are the ones from before, both of them.
\<close>

theorem import_all_or_nothing:
  "(parse content = Inr data \<and> arrayMember data ''tables'' = Some ts \<and>
    arrayMember data ''relationships'' = Some rs \<longrightarrow>
      handleFileChange parse (Some content) g = (\<lparr> g_tables = Some (JArray ts), g_relationships = Some (JArray rs) \<rparr>, [])) \<and>
   (\<not> (\<exists>d ts' rs'. parse content = Inr d \<and> arrayMember d ''tables'' = Some ts' \<and>
                    arrayMember d ''relationships'' = Some rs') \<longrightarrow>
      fst (handleFileChange parse (Some content) g) = g \<and>
      length (snd (handleFileChange parse (Some content) g)) = 1)"
  using onload_accepts [of parse content data ts rs g] onload_rejects [of parse content g]
  by (simp add: handleFileChange_def)

theorem import_all_or_nothing_witness:
  \<open>sampleParse ''{"tables":[{"id":"t"}],"relationships":[]}''
     = Inr (JObject [(''tables'', JArray [JObject [(''id'', JString ''t'')]]),
                     (''relationships'', JArray [])]) \<and>
   handleFileChange sampleParse (Some ''{"tables":[{"id":"t"}],"relationships":[]}'') currentGraph
     = (\<lparr> g_tables = Some (JArray [JObject [(''id'', JString ''t'')]]),
          g_relationships = Some (JArray []) \<rparr>, []) \<and>
   sampleParse ''{"tables":[],"relationships":7}''
     = Inr (JObject [(''tables'', JArray []), (''relationships'', JNumber 7)]) \<and>
   fst (handleFileChange sampleParse (Some ''{"tables":[],"relationships":7}'') currentGraph)
     = currentGraph \<and>
   length (snd (handleFileChange sampleParse (Some ''{"tables":[],"relationships":7}'')
                  currentGraph)) = 1 \<and>
   sampleParse ''not json'' = Inl SyntaxError \<and>
   fst (handleFileChange sampleParse (Some ''not json'') currentGraph) = currentGraph \<and>
   length (snd (handleFileChange sampleParse (Some ''not json'') currentGraph)) = 1\<close>
proof -
  let ?good = \<open>''{"tables":[{"id":"t"}],"relationships":[]}''\<close>
  let ?bad = \<open>''{"tables":[],"relationships":7}''\<close>
  have p1: "sampleParse ?good
     = Inr (JObject [(''tables'', JArray [JObject [(''id'', JString ''t'')]]),
                     (''relationships'', JArray [])])"
    by (simp add: sampleParse_def)
  have p2: "sampleParse ?bad
     = Inr (JObject [(''tables'', JArray []), (''relationships'', JNumber 7)])"
    by (simp add: sampleParse_def)
  have p3: "sampleParse ''not json'' = Inl SyntaxError"
    by (simp add: sampleParse_def)
  have a1: "handleFileChange sampleParse (Some ?good) currentGraph
     = (\<lparr> g_tables = Some (JArray [JObject [(''id'', JString ''t'')]]),
          g_relationships = Some (JArray []) \<rparr>, [])"
    using import_all_or_nothing
      [of sampleParse ?good
          "JObject [(''tables'', JArray [JObject [(''id'', JString ''t'')]]),
                    (''relationships'', JArray [])]"
          "[JObject [(''id'', JString ''t'')]]" "[]" currentGraph]
      p1
    by simp
  have a2: "fst (handleFileChange sampleParse (Some ?bad) currentGraph) = currentGraph \<and>
      length (snd (handleFileChange sampleParse (Some ?bad) currentGraph)) = 1"
    using import_all_or_nothing [of sampleParse ?bad _ _ _ currentGraph] p2
    by simp
  have a3: "fst (handleFileChange sampleParse (Some ''not json'') currentGraph) = currentGraph \<and>
      length (snd (handleFileChange sampleParse (Some ''not json'') currentGraph)) = 1"
    using import_all_or_nothing [of sampleParse "''not json''" _ _ _ currentGraph] p3
    by simp
  show ?thesis using p1 p2 p3 a1 a2 a3 by simp
qed

end
